theory Spec2Isabelle
  imports Main "HOL-Library.Word" "HOL-Library.AList"
begin

section \<open>Exceptions and byte strings\<close>

text \<open>
  Every exception the program can meet below \<open>Exception\<close> is a value; the string is
  what \<open>str(e)\<close> gives. \<open>except Exception\<close> catches all of them.
\<close>

datatype exn =
    ValueError string
  | KeyError string
  | RuntimeError string
  | OSError string
  | LibError string

fun str_exn :: "exn \<Rightarrow> string" where
  "str_exn (ValueError m) = m"
| "str_exn (KeyError m) = m"
| "str_exn (RuntimeError m) = m"
| "str_exn (OSError m) = m"
| "str_exn (LibError m) = m"

type_synonym bytes = "8 word list"

text \<open>\<open>str.startswith\<close>.\<close>

definition startswith :: "string \<Rightarrow> string \<Rightarrow> bool" where
  "startswith s pre = (take (length pre) s = pre)"

section \<open>Paths: the part of \<open>pathlib\<close> the program uses\<close>

text \<open>
  A POSIX path is its anchor (\<open>''/''\<close> when absolute, empty when relative) and the list
  of its components after the anchor. \<open>pathlib\<close> never keeps an empty component or a
  \<open>.\<close> component.
\<close>

datatype path = Path (anchor: string) (tail: "string list")

definition name :: "path \<Rightarrow> string" where
  "name p = (case tail p of [] \<Rightarrow> [] | _ \<Rightarrow> last (tail p))"

text \<open>\<open>str.rfind\<close> of one character: the highest index where it stands, or \<open>-1\<close>.\<close>

fun rfind :: "char \<Rightarrow> string \<Rightarrow> int" where
  "rfind c [] = -1"
| "rfind c (x # xs) =
     (let r = rfind c xs
      in if 0 \<le> r then r + 1 else if x = c then 0 else -1)"

text \<open>
  \<open>PurePath.suffix\<close>: the name from its last dot on, unless that dot is the first or the
  last character of the name.
\<close>

definition suffix_of :: "string \<Rightarrow> string" where
  "suffix_of n =
     (let i = rfind (CHR ''.'') n
      in if 0 < i \<and> i < int (length n) - 1 then drop (nat i) n else [])"

definition suffix :: "path \<Rightarrow> string" where
  "suffix p = suffix_of (name p)"

definition stem_of :: "string \<Rightarrow> string" where
  "stem_of n = take (length n - length (suffix_of n)) n"

fun join_parts :: "string list \<Rightarrow> string" where
  "join_parts [] = []"
| "join_parts [s] = s"
| "join_parts (s # t # ss) = s @ ''/'' @ join_parts (t # ss)"

definition str_path :: "path \<Rightarrow> string" where
  "str_path p =
     (if anchor p = [] \<and> tail p = [] then ''.'' else anchor p @ join_parts (tail p))"

text \<open>
  \<open>repr\<close> of a string that holds no quote and nothing to escape: the string between
  single quotes. The messages of \<open>pathlib\<close> and of the operating system below quote
  paths this way; their wording is that of CPython 3.9 to 3.11 on Linux.
\<close>

definition repr_str :: "string \<Rightarrow> string" where
  "repr_str s = [CHR 0x27] @ s @ [CHR 0x27]"

text \<open>
  \<open>PurePath.relative_to\<close>: the anchors agree and the other path's components are a
  prefix of this one's; the result is the relative path of the remaining components.
  Otherwise \<open>ValueError\<close>.
\<close>

definition is_relative_to :: "path \<Rightarrow> path \<Rightarrow> bool" where
  "is_relative_to p other =
     (anchor p = anchor other \<and> take (length (tail other)) (tail p) = tail other)"

definition relative_to :: "path \<Rightarrow> path \<Rightarrow> exn + path" where
  "relative_to p other =
     (if is_relative_to p other
      then Inr (Path [] (drop (length (tail other)) (tail p)))
      else Inl (ValueError
             (repr_str (str_path p) @ '' is not in the subpath of '' @ repr_str (str_path other)
              @ '' OR one path is relative and the other is absolute.'')))"

text \<open>\<open>a / b\<close>: an anchored right operand replaces the left one.\<close>

definition truediv :: "path \<Rightarrow> path \<Rightarrow> path" where
  "truediv a b = (if anchor b \<noteq> [] then b else Path (anchor a) (tail a @ tail b))"

text \<open>
  \<open>PurePath.with_suffix\<close>: refuses a suffix with a separator, one that does not start
  with a dot, the lone dot, and a path with an empty name; otherwise the old suffix of
  the name (if any) gives way to the new one.
\<close>

definition with_suffix :: "path \<Rightarrow> string \<Rightarrow> exn + path" where
  "with_suffix p suf =
     (if CHR ''/'' \<in> set suf then Inl (ValueError (''Invalid suffix '' @ repr_str suf))
      else if (suf \<noteq> [] \<and> \<not> startswith suf ''.'') \<or> suf = ''.''
        then Inl (ValueError (''Invalid suffix '' @ repr_str suf))
      else if name p = []
        then Inl (ValueError
               (''PosixPath('' @ repr_str (str_path p) @ '') has an empty name''))
      else Inr (Path (anchor p) (butlast (tail p) @ [stem_of (name p) @ suf])))"

definition parent :: "path \<Rightarrow> path" where
  "parent p = Path (anchor p) (butlast (tail p))"

subsection \<open>The Path Mapper\<close>

text \<open>
  \<^verbatim>\<open>
  def make_output_path(src, input_root, output_root):
      rel = src.relative_to(input_root)
      return (output_root / rel).with_suffix(".jpg")
  \<close>
\<close>

definition make_output_path :: "path \<Rightarrow> path \<Rightarrow> path \<Rightarrow> exn + path" where
  "make_output_path src input_root output_root =
     (case relative_to src input_root of
        Inl e \<Rightarrow> Inl e
      | Inr rel \<Rightarrow> with_suffix (truediv output_root rel) ''.jpg'')"

text \<open>
  A path lies strictly below a root when it is relative to it and has at least one more
  component.
\<close>

definition is_below :: "path \<Rightarrow> path \<Rightarrow> bool" where
  "is_below p r = (is_relative_to p r \<and> length (tail r) < length (tail p))"

subsection \<open>The quality argument\<close>

text \<open>
  The entry point passes \<^verbatim>\<open>quality=max(1, min(100, int(args.quality)))\<close> to the batch.
\<close>

definition clamp_quality :: "int \<Rightarrow> int" where
  "clamp_quality q = max 1 (min 100 q)"

section \<open>The filesystem\<close>

text \<open>
  The filesystem is the list of its entries in traversal order, each path with what it
  holds. The anchor and the current directory (paths without components) always exist
  as directories.
\<close>

datatype entry = FileE bytes | DirE

type_synonym fs = "(path \<times> entry) list"

definition lookup :: "fs \<Rightarrow> path \<Rightarrow> entry option" where
  "lookup f p = (if tail p = [] then Some DirE else map_of f p)"

definition path_exists :: "fs \<Rightarrow> path \<Rightarrow> bool" where
  "path_exists f p = (lookup f p \<noteq> None)"

definition is_file :: "fs \<Rightarrow> path \<Rightarrow> bool" where
  "is_file f p = (case lookup f p of Some (FileE b) \<Rightarrow> True | _ \<Rightarrow> False)"

definition is_dir :: "fs \<Rightarrow> path \<Rightarrow> bool" where
  "is_dir f p = (case lookup f p of Some DirE \<Rightarrow> True | _ \<Rightarrow> False)"

definition file_at :: "fs \<Rightarrow> path \<Rightarrow> bytes option" where
  "file_at f p = (case lookup f p of Some (FileE b) \<Rightarrow> Some b | _ \<Rightarrow> None)"

definition write_file :: "fs \<Rightarrow> path \<Rightarrow> bytes \<Rightarrow> fs" where
  "write_file f p b = AList.update p (FileE b) f"

text \<open>\<open>root.rglob("*")\<close>: every entry strictly below the root, in traversal order.\<close>

definition rglob :: "fs \<Rightarrow> path \<Rightarrow> path list" where
  "rglob f r = filter (\<lambda>p. is_below p r) (map fst f)"

text \<open>
  \<open>Path.mkdir(parents=True, exist_ok=True)\<close>: the directories on the way down are made
  where they are missing; one that exists as a file raises, and what was made before it
  stays. The error names the directory asked for: it exists as a file
  (\<open>FileExistsError\<close>), or a file stands on the way to it (\<open>NotADirectoryError\<close>).
\<close>

fun mkdir_chain :: "fs \<Rightarrow> path list \<Rightarrow> exn option \<times> fs" where
  "mkdir_chain f [] = (None, f)"
| "mkdir_chain f (d # ds) =
     (case lookup f d of
        None \<Rightarrow> mkdir_chain (f @ [(d, DirE)]) ds
      | Some DirE \<Rightarrow> mkdir_chain f ds
      | Some (FileE b) \<Rightarrow>
          (Some (OSError
             ((if ds = [] then ''[Errno 17] File exists: '' else ''[Errno 20] Not a directory: '')
              @ repr_str (str_path (last (d # ds))))),
           f))"

definition ancestors :: "path \<Rightarrow> path list" where
  "ancestors d = map (\<lambda>n. Path (anchor d) (take n (tail d))) [1 ..< Suc (length (tail d))]"

definition mkdir_parents :: "fs \<Rightarrow> path \<Rightarrow> exn option \<times> fs" where
  "mkdir_parents f d = mkdir_chain f (ancestors d)"

text \<open>
  \<^verbatim>\<open>
  def ensure_parent(path):
      path.parent.mkdir(parents=True, exist_ok=True)
  \<close>
\<close>

definition ensure_parent :: "fs \<Rightarrow> path \<Rightarrow> exn option \<times> fs" where
  "ensure_parent f p = mkdir_parents f (parent p)"

section \<open>File discovery\<close>

text \<open>
  \<^verbatim>\<open>
  HEIC_EXTS = {".heic", ".heif", ".HEIC", ".HEIF"}

  def find_heic_files(root):
      return [p for p in root.rglob("*") if p.is_file() and p.suffix in HEIC_EXTS]
  \<close>
\<close>

definition HEIC_EXTS :: "string set" where
  "HEIC_EXTS = {''.heic'', ''.heif'', ''.HEIC'', ''.HEIF''}"

definition find_heic_files :: "fs \<Rightarrow> path \<Rightarrow> path list" where
  "find_heic_files f r = filter (\<lambda>p. is_file f p \<and> suffix p \<in> HEIC_EXTS) (rglob f r)"

text \<open>
  Case-insensitive matching, as the specification words it: the extension, with its
  ASCII capitals lowered, is \<open>.heic\<close> or \<open>.heif\<close>.
\<close>

definition lower_char :: "char \<Rightarrow> char" where
  "lower_char c =
     (case map_of (zip ''ABCDEFGHIJKLMNOPQRSTUVWXYZ'' ''abcdefghijklmnopqrstuvwxyz'') c of
        Some l \<Rightarrow> l
      | None \<Rightarrow> c)"

definition matches_heic_caseless :: "path \<Rightarrow> bool" where
  "matches_heic_caseless p = (map lower_char (suffix p) \<in> {''.heic'', ''.heif''})"

section \<open>The external libraries\<close>

text \<open>
  The imaging, HEIF and EXIF libraries are not part of the program: what they return is
  a parameter. \<open>image_save\<close> is \<open>Image.save\<close> on a path: it returns or raises, and
  leaves the filesystem as the library decides. \<open>print_line\<close> is \<open>print\<close> on the
  standard output: it writes the line, or raises (a line the output's encoding cannot
  hold) and writes nothing.
\<close>

record image =
  info_exif :: "bytes option"
  pixels :: bytes
  mode :: string

datatype exif_value = IntV int | BytesV bytes

type_synonym exif_dict = "string \<rightharpoonup> (nat \<rightharpoonup> exif_value)"

record piexif_lib =
  load :: "bytes \<Rightarrow> exn + exif_dict"
  dump :: "exif_dict \<Rightarrow> exn + bytes"

record lib =
  heif_available :: bool
  register_heif_opener :: "exn + unit"
  piexif :: "piexif_lib option"
  image_open :: "fs \<Rightarrow> path \<Rightarrow> exn + image"
  exif_transpose :: "image \<Rightarrow> exn + image"
  convert_rgb :: "image \<Rightarrow> exn + image"
  image_save :: "image \<Rightarrow> path \<Rightarrow> bytes option \<Rightarrow> int \<Rightarrow> fs \<Rightarrow> exn option \<times> fs"
  print_line :: "string \<Rightarrow> exn option"

section \<open>The orientation fixer\<close>

text \<open>\<open>piexif.ImageIFD.Orientation\<close> is tag 274.\<close>

definition Orientation :: nat where
  "Orientation = 274"

text \<open>
  The body of the \<open>try\<close>:
  \<^verbatim>\<open>
  exif_dict = piexif.load(exif_bytes)
  if piexif.ImageIFD.Orientation in exif_dict.get("0th", {}):
      exif_dict["0th"][piexif.ImageIFD.Orientation] = 1
  return piexif.dump(exif_dict)
  \<close>
\<close>

definition fix_orientation_try :: "piexif_lib \<Rightarrow> bytes \<Rightarrow> exn + bytes" where
  "fix_orientation_try px b =
     (case load px b of
        Inl e \<Rightarrow> Inl e
      | Inr d \<Rightarrow>
          if Orientation \<in> dom (case d ''0th'' of None \<Rightarrow> Map.empty | Some ifd \<Rightarrow> ifd)
          then (case d ''0th'' of
                  None \<Rightarrow> Inl (KeyError ''0th'')
                | Some ifd \<Rightarrow> dump px (d(''0th'' \<mapsto> ifd(Orientation \<mapsto> IntV 1))))
          else dump px d)"

text \<open>
  \<^verbatim>\<open>
  def _fix_orientation_exif_bytes(exif_bytes):
      if not exif_bytes or not piexif:
          return exif_bytes
      try:
          ...
      except Exception:
          return exif_bytes
  \<close>
  \<open>not exif_bytes\<close> holds of \<open>None\<close> and of the empty byte string.
\<close>

definition fix_orientation_exif_bytes :: "lib \<Rightarrow> bytes option \<Rightarrow> exn + bytes option" where
  "fix_orientation_exif_bytes L exif_bytes =
     (case exif_bytes of
        None \<Rightarrow> Inr exif_bytes
      | Some b \<Rightarrow>
          if b = [] then Inr exif_bytes
          else (case piexif L of
                  None \<Rightarrow> Inr exif_bytes
                | Some px \<Rightarrow>
                    (case fix_orientation_try px b of
                       Inl e \<Rightarrow> Inr exif_bytes
                     | Inr b' \<Rightarrow> Inr (Some b'))))"

section \<open>The single-file converter\<close>

text \<open>
  The body of the \<open>try\<close> of \<open>convert_one\<close>; an exception leaves the filesystem as it was
  when it was raised.
  \<^verbatim>\<open>
  if dest.exists() and not overwrite:
      return f"SKIP (exists): {src.name}"
  ensure_parent(dest)
  with Image.open(src) as img:
      exif_bytes = img.info.get("exif")
      if fix_orientation:
          img = ImageOps.exif_transpose(img)
          exif_bytes = _fix_orientation_exif_bytes(exif_bytes)
      img = img.convert("RGB")
      img.save(dest, format="JPEG", exif=exif_bytes, quality=quality, subsampling=0, optimize=True)
  return f"OK: {src.name}"
  \<close>
\<close>

definition orient_step :: "lib \<Rightarrow> bool \<Rightarrow> image \<Rightarrow> exn + image \<times> bytes option" where
  "orient_step L fix_orientation img =
     (if fix_orientation
      then (case exif_transpose L img of
              Inl e \<Rightarrow> Inl e
            | Inr img' \<Rightarrow>
                (case fix_orientation_exif_bytes L (info_exif img) of
                   Inl e \<Rightarrow> Inl e
                 | Inr ex \<Rightarrow> Inr (img', ex)))
      else Inr (img, info_exif img))"

definition convert_try ::
  "lib \<Rightarrow> fs \<Rightarrow> path \<Rightarrow> path \<Rightarrow> int \<Rightarrow> bool \<Rightarrow> bool \<Rightarrow> (exn + string) \<times> fs" where
  "convert_try L f src dest quality overwrite fix_orientation =
     (if path_exists f dest \<and> \<not> overwrite then (Inr (''SKIP (exists): '' @ name src), f)
      else (case ensure_parent f dest of
              (Some e, f1) \<Rightarrow> (Inl e, f1)
            | (None, f1) \<Rightarrow>
                (case image_open L f1 src of
                   Inl e \<Rightarrow> (Inl e, f1)
                 | Inr img \<Rightarrow>
                     (case orient_step L fix_orientation img of
                        Inl e \<Rightarrow> (Inl e, f1)
                      | Inr (img1, exif_bytes) \<Rightarrow>
                          (case convert_rgb L img1 of
                             Inl e \<Rightarrow> (Inl e, f1)
                           | Inr img2 \<Rightarrow>
                               (case image_save L img2 dest exif_bytes quality f1 of
                                  (Some e, f2) \<Rightarrow> (Inl e, f2)
                                | (None, f2) \<Rightarrow> (Inr (''OK: '' @ name src), f2)))))))"

text \<open>
  \<^verbatim>\<open>
  def convert_one(src, dest, quality, overwrite, fix_orientation):
      try:
          ...
      except Exception as e:
          return f"ERROR: {src.name} ({e})"
  \<close>
\<close>

definition convert_one ::
  "lib \<Rightarrow> fs \<Rightarrow> path \<Rightarrow> path \<Rightarrow> int \<Rightarrow> bool \<Rightarrow> bool \<Rightarrow> (exn + string) \<times> fs" where
  "convert_one L f src dest quality overwrite fix_orientation =
     (case convert_try L f src dest quality overwrite fix_orientation of
        (Inl e, f') \<Rightarrow> (Inr (''ERROR: '' @ name src @ '' ('' @ str_exn e @ '')''), f')
      | (Inr msg, f') \<Rightarrow> (Inr msg, f'))"

section \<open>The batch runner\<close>

text \<open>
  The loop of \<open>run_batch\<close>, over the files still to do, with the filesystem, the two
  counters and the lines printed so far. Neither the path mapping nor \<open>print\<close> stands
  in a \<open>try\<close>: an exception of either ends the loop.
  \<^verbatim>\<open>
  for src in files:
      dest = make_output_path(src, input_dir, output_dir)
      msg = convert_one(src, dest, quality, overwrite, fix_orientation)
      print(msg)
      done += 1
      if msg.startswith("ERROR"):
          errors += 1
  \<close>
\<close>

type_synonym loop_state = "fs \<times> nat \<times> nat \<times> string list"

fun batch_loop ::
  "lib \<Rightarrow> path \<Rightarrow> path \<Rightarrow> int \<Rightarrow> bool \<Rightarrow> bool \<Rightarrow> path list \<Rightarrow> loop_state
     \<Rightarrow> exn option \<times> loop_state" where
  "batch_loop L input_dir output_dir quality overwrite fix_orientation [] st = (None, st)"
| "batch_loop L input_dir output_dir quality overwrite fix_orientation (src # files)
       (f, done_n, errors, printed) =
     (case make_output_path src input_dir output_dir of
        Inl e \<Rightarrow> (Some e, (f, done_n, errors, printed))
      | Inr dest \<Rightarrow>
          (case convert_one L f src dest quality overwrite fix_orientation of
             (Inl e, f') \<Rightarrow> (Some e, (f', done_n, errors, printed))
           | (Inr msg, f') \<Rightarrow>
               (case print_line L msg of
                  Some e \<Rightarrow> (Some e, (f', done_n, errors, printed))
                | None \<Rightarrow>
                    batch_loop L input_dir output_dir quality overwrite fix_orientation files
                      (f', done_n + 1,
                       (if startswith msg ''ERROR'' then errors + 1 else errors),
                       printed @ [msg]))))"

text \<open>
  \<^verbatim>\<open>
  def run_batch(input_dir, output_dir, quality, overwrite, fix_orientation):
      if not _HEIF_AVAILABLE:
          raise RuntimeError("HEIC support not available. ...")
      try:
          pillow_heif.register_heif_opener()
      except Exception as e:
          raise RuntimeError(f"HEIF initialization failed: {e}")
      files = list(find_heic_files(input_dir))
      total = len(files)
      done = 0
      errors = 0
      for src in files: ...
      return total, done, errors
  \<close>
  The result is the returned triple or the exception, the filesystem left behind and
  the lines printed.
\<close>

definition run_batch ::
  "lib \<Rightarrow> fs \<Rightarrow> path \<Rightarrow> path \<Rightarrow> int \<Rightarrow> bool \<Rightarrow> bool
     \<Rightarrow> (exn + nat \<times> nat \<times> nat) \<times> fs \<times> string list" where
  "run_batch L f input_dir output_dir quality overwrite fix_orientation =
     (if \<not> heif_available L
      then (Inl (RuntimeError
              ''HEIC support not available. Install pillow-heif (and libheif on Linux).''),
            f, [])
      else (case register_heif_opener L of
              Inl e \<Rightarrow> (Inl (RuntimeError (''HEIF initialization failed: '' @ str_exn e)), f, [])
            | Inr u \<Rightarrow>
                (let files = find_heic_files f input_dir;
                     total = length files
                 in case batch_loop L input_dir output_dir quality overwrite fix_orientation
                           files (f, 0, 0, []) of
                      (Some e, (f', done_n, errors, printed)) \<Rightarrow> (Inl e, f', printed)
                    | (None, (f', done_n, errors, printed)) \<Rightarrow>
                        (Inr (total, done_n, errors), f', printed))))"

section \<open>The entry point, after the folders are picked\<close>

text \<open>
  \<^verbatim>\<open>
  if not src.exists() or not src.is_dir():
      raise FileNotFoundError(f"Input directory not found: {src}")
  dst.mkdir(parents=True, exist_ok=True)
  total, done, errs = run_batch(
      input_dir=src, output_dir=dst,
      quality=max(1, min(100, int(args.quality))),
      overwrite=bool(args.overwrite),
      fix_orientation=not args.no_orient_fix)
  \<close>
\<close>

definition main_run ::
  "lib \<Rightarrow> fs \<Rightarrow> path \<Rightarrow> path \<Rightarrow> int \<Rightarrow> bool \<Rightarrow> bool
     \<Rightarrow> (exn + nat \<times> nat \<times> nat) \<times> fs \<times> string list" where
  "main_run L f src dst args_quality args_overwrite args_no_orient_fix =
     (if \<not> path_exists f src \<or> \<not> is_dir f src
      then (Inl (OSError (''Input directory not found: '' @ str_path src)), f, [])
      else (case mkdir_parents f dst of
              (Some e, f1) \<Rightarrow> (Inl e, f1, [])
            | (None, f1) \<Rightarrow>
                run_batch L f1 src dst (clamp_quality args_quality) args_overwrite
                  (\<not> args_no_orient_fix)))"

section \<open>Specification-side notions and concrete environments\<close>

text \<open>
  The failed attempts of a batch, counted from the outcomes of the converter's \<open>try\<close>
  body rather than from the printed lines.
\<close>

fun failed_attempts ::
  "lib \<Rightarrow> path \<Rightarrow> path \<Rightarrow> int \<Rightarrow> bool \<Rightarrow> bool \<Rightarrow> path list \<Rightarrow> fs \<Rightarrow> nat" where
  "failed_attempts L input_dir output_dir quality overwrite fix_orientation [] f = 0"
| "failed_attempts L input_dir output_dir quality overwrite fix_orientation (src # files) f =
     (case make_output_path src input_dir output_dir of
        Inl e \<Rightarrow> 0
      | Inr dest \<Rightarrow>
          (case convert_try L f src dest quality overwrite fix_orientation of
             (r, f') \<Rightarrow>
               (if isl r then 1 else 0)
               + failed_attempts L input_dir output_dir quality overwrite fix_orientation
                   files f'))"



text \<open>
  An environment for the examples: HEIF support present, an EXIF library whose parser
  rejects everything, a decoder that rejects an empty file, a save that writes the
  pixels to its target, and an output that takes every line.
\<close>

definition demo_piexif :: piexif_lib where
  "demo_piexif =
     \<lparr>load = (\<lambda>b. Inl (ValueError ''bad exif'')),
      dump = (\<lambda>d. Inl (ValueError ''cannot dump''))\<rparr>"

definition demo_lib :: lib where
  "demo_lib =
     \<lparr>heif_available = True,
      register_heif_opener = Inr (),
      piexif = Some demo_piexif,
      image_open = (\<lambda>g p. case file_at g p of
                        None \<Rightarrow> Inl (OSError ''No such file'')
                      | Some b \<Rightarrow>
                          if b = [] then Inl (LibError ''cannot identify image file'')
                          else Inr \<lparr>info_exif = Some [1, 2], pixels = b, mode = ''RGB''\<rparr>),
      exif_transpose = Inr,
      convert_rgb = Inr,
      image_save = (\<lambda>img p ex q g.
                      if tail p = [] then (Some (OSError ''Is a directory''), g)
                      else (None, write_file g p (pixels img))),
      print_line = (\<lambda>s. None)\<rparr>"

text \<open>
  A tree \<open>/in\<close> with \<open>a/b.HEIC\<close>, \<open>a/c.jpg\<close>, a mixed-case \<open>a/d.Heic\<close> and an
  undecodable \<open>a/bad.heif\<close>, and an empty output root \<open>/out\<close>.
\<close>

definition demo_fs :: fs where
  "demo_fs =
     [(Path ''/'' [''in''], DirE),
      (Path ''/'' [''in'', ''a''], DirE),
      (Path ''/'' [''in'', ''a'', ''b.HEIC''], FileE [1]),
      (Path ''/'' [''in'', ''a'', ''c.jpg''], FileE [2]),
      (Path ''/'' [''in'', ''a'', ''d.Heic''], FileE [3]),
      (Path ''/'' [''in'', ''a'', ''bad.heif''], FileE []),
      (Path ''/'' [''out''], DirE)]"

section \<open>Properties of paths\<close>

lemmas path_simps = is_below_def is_relative_to_def relative_to_def name_def stem_of_def
  suffix_of_def suffix_def Let_def truediv_def with_suffix_def startswith_def
  make_output_path_def parent_def

lemmas fs_simps = lookup_def path_exists_def is_file_def is_dir_def file_at_def
  write_file_def rglob_def ancestors_def mkdir_parents_def ensure_parent_def
  find_heic_files_def HEIC_EXTS_def

lemma rfind_append: "0 \<le> rfind c ys \<Longrightarrow> rfind c (xs @ ys) = int (length xs) + rfind c ys"
  by (induction xs) (auto simp: Let_def)

lemma suffix_of_jpg: "s \<noteq> [] \<Longrightarrow> suffix_of (s @ ''.jpg'') = ''.jpg''"
proof -
  assume s: "s \<noteq> []"
  have "rfind (CHR ''.'') ''.jpg'' = 0" by (simp add: Let_def)
  then have "rfind (CHR ''.'') (s @ ''.jpg'') = int (length s)"
    using rfind_append [of "CHR ''.''" "''.jpg''" s] by simp
  with s show ?thesis by (simp add: suffix_of_def Let_def)
qed

lemma stem_nonempty: "n \<noteq> [] \<Longrightarrow> stem_of n \<noteq> []"
  by (auto simp: stem_of_def suffix_of_def Let_def)

lemma name_last: "ts \<noteq> [] \<Longrightarrow> name (Path a ts) = last ts"
  by (cases ts) (simp_all add: name_def)

lemma make_output_path_below:
  assumes "is_below src input_root" and "name src \<noteq> []"
  shows "\<exists>rel d. relative_to src input_root = Inr rel
         \<and> make_output_path src input_root output_root = Inr d
         \<and> is_below d output_root
         \<and> relative_to d output_root = with_suffix rel ''.jpg''
         \<and> d = Path (anchor output_root)
               (tail output_root @ butlast (tail rel) @ [stem_of (name src) @ ''.jpg''])
         \<and> suffix d = ''.jpg''"
proof -
  from assms have a: "is_below src input_root \<and> name src \<noteq> []" by simp
  define k where "k = length (tail input_root)"
  define r where "r = drop k (tail src)"
  from a have rel: "is_relative_to src input_root" and len: "k < length (tail src)"
    by (simp_all add: is_below_def k_def)
  from len have r_ne: "r \<noteq> []" by (simp add: r_def)
  then have last_r: "last r = last (tail src)" using len by (simp add: r_def)
  from len have src_ne: "tail src \<noteq> []" by auto
  then have nm: "name src = last (tail src)" by (cases "tail src") (simp_all add: name_def)
  with a have last_ne: "last r \<noteq> []" using last_r by simp
  have nm_r: "name (Path [] r) = last r" using r_ne by (simp add: name_last)
  have nm_o: "name (Path (anchor output_root) (tail output_root @ r)) = last r"
    using r_ne by (simp add: name_last)
  have st: "stem_of (last r) \<noteq> []" using last_ne by (rule stem_nonempty)
  let ?d = "Path (anchor output_root)
              (tail output_root @ butlast r @ [stem_of (last r) @ ''.jpg''])"
  have r1: "relative_to src input_root = Inr (Path [] r)"
    using rel by (simp add: relative_to_def r_def k_def)
  have m: "make_output_path src input_root output_root = Inr ?d"
    using r_ne last_ne
    by (simp add: make_output_path_def r1 truediv_def with_suffix_def nm_o startswith_def
        butlast_append)
  have b: "is_below ?d output_root"
    by (simp add: is_below_def is_relative_to_def)
  have w: "with_suffix (Path [] r) ''.jpg''
             = Inr (Path [] (butlast r @ [stem_of (last r) @ ''.jpg'']))"
    using last_ne by (simp add: with_suffix_def nm_r startswith_def)
  have rd: "relative_to ?d output_root = with_suffix (Path [] r) ''.jpg''"
    by (simp add: w relative_to_def is_relative_to_def)
  have sd: "suffix ?d = ''.jpg''"
    using suffix_of_jpg [OF st] by (simp add: suffix_def name_last)
  show ?thesis
    using r1 m b rd sd nm last_r by auto
qed

lemma make_output_path_ok:
  "is_below src input_root \<Longrightarrow> name src \<noteq> [] \<Longrightarrow>
     \<exists>d. make_output_path src input_root output_root = Inr d"
  using make_output_path_below [of src input_root output_root] by blast

text \<open>
  C3, as the claim states it, fails where the source is the input root itself: the
  relative path is then empty, so the suffix of the output root's own name is replaced.
  With input root \<open>/in\<close> and output root \<open>/out\<close> the mapper returns \<open>/out.jpg\<close>: it does
  not fail, and the result is not under the output root.
\<close>

theorem make_output_path_root_counterexample:
  "make_output_path (Path ''/'' [''in'']) (Path ''/'' [''in'']) (Path ''/'' [''out''])
     = Inr (Path ''/'' [''out.jpg''])
   \<and> \<not> is_relative_to (Path ''/'' [''out.jpg'']) (Path ''/'' [''out''])"
  by (simp add: make_output_path_def relative_to_def is_relative_to_def truediv_def
      with_suffix_def startswith_def name_def stem_of_def suffix_of_def Let_def)

text \<open>
  C3 (amended): for every source path strictly below the input root (with a non-empty
  last component, as every real path has), the Path Mapper returns a path strictly below
  the output root whose relative component is the source's relative component with its
  final suffix replaced by \<open>.jpg\<close>, whatever the case of the old suffix; when the source
  is neither the input root nor below it, the mapper fails with a \<open>ValueError\<close>.
\<close>

theorem make_output_path_maps:
  "(is_below src input_root \<and> name src \<noteq> [] \<longrightarrow>
      (\<exists>rel d. relative_to src input_root = Inr rel
         \<and> make_output_path src input_root output_root = Inr d
         \<and> is_below d output_root
         \<and> relative_to d output_root = with_suffix rel ''.jpg''
         \<and> d = Path (anchor output_root)
               (tail output_root @ butlast (tail rel) @ [stem_of (name src) @ ''.jpg''])
         \<and> suffix d = ''.jpg''))
   \<and> (\<not> is_relative_to src input_root \<longrightarrow>
        (\<exists>m. make_output_path src input_root output_root = Inl (ValueError m)))"
proof (rule conjI; rule impI)
  assume "is_below src input_root \<and> name src \<noteq> []"
  then show "\<exists>rel d. relative_to src input_root = Inr rel
         \<and> make_output_path src input_root output_root = Inr d
         \<and> is_below d output_root
         \<and> relative_to d output_root = with_suffix rel ''.jpg''
         \<and> d = Path (anchor output_root)
               (tail output_root @ butlast (tail rel) @ [stem_of (name src) @ ''.jpg''])
         \<and> suffix d = ''.jpg''"
    using make_output_path_below [of src input_root output_root] by blast
next
  assume "\<not> is_relative_to src input_root"
  then show "\<exists>m. make_output_path src input_root output_root = Inl (ValueError m)"
    by (simp add: make_output_path_def relative_to_def)
qed

theorem make_output_path_maps_witness:
  "is_below (Path ''/'' [''tmp'', ''in'', ''sub'', ''x.HEIC'']) (Path ''/'' [''tmp'', ''in''])
   \<and> name (Path ''/'' [''tmp'', ''in'', ''sub'', ''x.HEIC'']) \<noteq> []
   \<and> make_output_path (Path ''/'' [''tmp'', ''in'', ''sub'', ''x.HEIC''])
         (Path ''/'' [''tmp'', ''in'']) (Path ''/'' [''tmp'', ''out''])
       = Inr (Path ''/'' [''tmp'', ''out'', ''sub'', ''x.jpg''])
   \<and> \<not> is_relative_to (Path ''/'' [''elsewhere'', ''x.HEIC'']) (Path ''/'' [''tmp'', ''in''])
   \<and> (\<exists>m. make_output_path (Path ''/'' [''elsewhere'', ''x.HEIC''])
         (Path ''/'' [''tmp'', ''in'']) (Path ''/'' [''tmp'', ''out'']) = Inl (ValueError m))"
  using make_output_path_maps [of "Path ''/'' [''tmp'', ''in'', ''sub'', ''x.HEIC'']"
      "Path ''/'' [''tmp'', ''in'']" "Path ''/'' [''tmp'', ''out'']"]
    make_output_path_maps [of "Path ''/'' [''elsewhere'', ''x.HEIC'']"
      "Path ''/'' [''tmp'', ''in'']" "Path ''/'' [''tmp'', ''out'']"]
  by (simp add: is_below_def is_relative_to_def relative_to_def name_def stem_of_def
      suffix_of_def Let_def)

section \<open>File discovery\<close>

text \<open>
  C1: file discovery is to match the extension whatever its case, and \<open>HEIC_EXTS\<close> lists
  each extension in lower case and in upper case. A mixed-case extension is missed:
  \<open>/in/a/d.Heic\<close> is an entry under the input directory, it is a file, its extension is
  \<open>.heic\<close> when case is ignored, and \<open>find_heic_files\<close> leaves it out.
\<close>

theorem find_heic_files_misses_mixed_case:
  "Path ''/'' [''in'', ''a'', ''d.Heic''] \<in> set (rglob demo_fs (Path ''/'' [''in'']))
   \<and> is_file demo_fs (Path ''/'' [''in'', ''a'', ''d.Heic''])
   \<and> matches_heic_caseless (Path ''/'' [''in'', ''a'', ''d.Heic''])
   \<and> Path ''/'' [''in'', ''a'', ''d.Heic''] \<notin> set (find_heic_files demo_fs (Path ''/'' [''in'']))"
  by (simp add: demo_fs_def path_simps fs_simps matches_heic_caseless_def lower_char_def)

section \<open>The orientation fixer never raises\<close>

text \<open>
  C6: the orientation fixer always returns: for \<open>None\<close>, for empty bytes and when the
  metadata library is absent it returns its input unchanged, and when anything in the
  \<open>try\<close> raises, in particular when parsing fails or serialising fails, it returns
  the original bytes.
\<close>

theorem fix_orientation_never_raises:
  "(\<exists>r. fix_orientation_exif_bytes L exif_bytes = Inr r)
   \<and> (exif_bytes = None \<or> exif_bytes = Some [] \<or> piexif L = None
        \<longrightarrow> fix_orientation_exif_bytes L exif_bytes = Inr exif_bytes)
   \<and> (\<forall>px b. piexif L = Some px \<and> exif_bytes = Some b
          \<and> (isl (fix_orientation_try px b) \<or> isl (load px b) \<or> (\<forall>d. isl (dump px d)))
        \<longrightarrow> fix_orientation_exif_bytes L exif_bytes = Inr exif_bytes)"
proof (intro conjI allI impI)
  show "\<exists>r. fix_orientation_exif_bytes L exif_bytes = Inr r"
    by (simp add: fix_orientation_exif_bytes_def split: option.splits sum.splits)
next
  assume "exif_bytes = None \<or> exif_bytes = Some [] \<or> piexif L = None"
  then show "fix_orientation_exif_bytes L exif_bytes = Inr exif_bytes"
    by (auto simp: fix_orientation_exif_bytes_def split: option.splits)
next
  fix px b
  assume a: "piexif L = Some px \<and> exif_bytes = Some b
      \<and> (isl (fix_orientation_try px b) \<or> isl (load px b) \<or> (\<forall>d. isl (dump px d)))"
  have "isl (fix_orientation_try px b)"
  proof (cases "load px b")
    case (Inl e)
    then show ?thesis by (simp add: fix_orientation_try_def)
  next
    case (Inr d)
    show ?thesis
    proof (cases "isl (fix_orientation_try px b)")
      case True
      then show ?thesis .
    next
      case False
      with a Inr have "\<forall>d. isl (dump px d)" by auto
      with Inr show ?thesis
        by (simp add: fix_orientation_try_def split: option.splits)
    qed
  qed
  with a show "fix_orientation_exif_bytes L exif_bytes = Inr exif_bytes"
    by (auto simp: fix_orientation_exif_bytes_def isl_def)
qed

theorem fix_orientation_never_raises_witness:
  "piexif demo_lib = Some demo_piexif \<and> isl (load demo_piexif [1, 2])
   \<and> fix_orientation_exif_bytes demo_lib (Some [1, 2]) = Inr (Some [1, 2])
   \<and> fix_orientation_exif_bytes demo_lib None = Inr None"
  using fix_orientation_never_raises [of demo_lib "Some [1, 2]"]
    fix_orientation_never_raises [of demo_lib None]
  by (simp add: demo_lib_def demo_piexif_def)

section \<open>The single-file converter\<close>

text \<open>
  C7: when the destination exists and the overwrite flag is off, the outcome is Skipped
  and the filesystem is exactly the one before the call, whatever the libraries would
  have done: nothing is written and the existing file keeps its content.
\<close>

theorem convert_one_skips_existing:
  "path_exists f dest \<and> \<not> overwrite \<Longrightarrow>
     convert_one L f src dest quality overwrite fix_orientation
       = (Inr (''SKIP (exists): '' @ name src), f)"
  by (simp add: convert_one_def convert_try_def)

theorem convert_one_skips_existing_witness:
  "path_exists demo_fs (Path ''/'' [''in'', ''a'', ''c.jpg'']) \<and> \<not> False
   \<and> convert_one demo_lib demo_fs (Path ''/'' [''in'', ''a'', ''b.HEIC''])
        (Path ''/'' [''in'', ''a'', ''c.jpg'']) 95 False True
      = (Inr ''SKIP (exists): b.HEIC'', demo_fs)"
  using convert_one_skips_existing [of demo_fs "Path ''/'' [''in'', ''a'', ''c.jpg'']" False
      demo_lib "Path ''/'' [''in'', ''a'', ''b.HEIC'']" 95 True]
  by (simp add: demo_fs_def path_simps fs_simps)

lemma convert_one_cases:
  "(\<exists>f'. convert_one L f src dest q ov fo = (Inr (''SKIP (exists): '' @ name src), f')
        \<and> convert_try L f src dest q ov fo = (Inr (''SKIP (exists): '' @ name src), f'))
   \<or> (\<exists>f'. convert_one L f src dest q ov fo = (Inr (''OK: '' @ name src), f')
        \<and> convert_try L f src dest q ov fo = (Inr (''OK: '' @ name src), f'))
   \<or> (\<exists>f' e. convert_one L f src dest q ov fo
            = (Inr (''ERROR: '' @ name src @ '' ('' @ str_exn e @ '')''), f')
        \<and> convert_try L f src dest q ov fo = (Inl e, f'))"
  by (simp add: convert_one_def convert_try_def split: prod.splits sum.splits option.splits)

text \<open>
  C10: the converter always returns a status string and never an exception, and the
  string starts with exactly one of \<open>OK: \<close>, \<open>SKIP (exists): \<close> and \<open>ERROR: \<close>; the
  test \<open>startswith("ERROR")\<close> of the batch runner holds exactly of the third form, which
  is exactly the case where the body of the \<open>try\<close> raised.
\<close>

theorem convert_one_total:
  "\<exists>msg f'. convert_one L f src dest quality overwrite fix_orientation = (Inr msg, f')
     \<and> (startswith msg ''OK: '' \<or> startswith msg ''SKIP (exists): ''
          \<or> startswith msg ''ERROR: '')
     \<and> \<not> (startswith msg ''OK: '' \<and> startswith msg ''SKIP (exists): '')
     \<and> \<not> (startswith msg ''OK: '' \<and> startswith msg ''ERROR: '')
     \<and> \<not> (startswith msg ''SKIP (exists): '' \<and> startswith msg ''ERROR: '')
     \<and> (startswith msg ''ERROR'' \<longleftrightarrow> startswith msg ''ERROR: '')
     \<and> (startswith msg ''ERROR'' \<longleftrightarrow>
           isl (fst (convert_try L f src dest quality overwrite fix_orientation)))"
  using convert_one_cases [of L f src dest quality overwrite fix_orientation]
  by (auto simp: startswith_def)


















section \<open>The batch runner\<close>

text \<open>
  C8: without HEIF support, or when registering the HEIF opener raises, the batch runner
  raises a \<open>RuntimeError\<close> with the filesystem untouched and nothing printed: no file
  is discovered or converted.
\<close>

theorem run_batch_fails_fast:
  "(\<not> heif_available L \<longrightarrow>
      run_batch L f input_dir output_dir quality overwrite fix_orientation
        = (Inl (RuntimeError
             ''HEIC support not available. Install pillow-heif (and libheif on Linux).''),
           f, []))
   \<and> (heif_available L \<and> register_heif_opener L = Inl e \<longrightarrow>
        run_batch L f input_dir output_dir quality overwrite fix_orientation
          = (Inl (RuntimeError (''HEIF initialization failed: '' @ str_exn e)), f, []))"
  by (simp add: run_batch_def)

theorem run_batch_fails_fast_witness:
  "\<not> heif_available (demo_lib\<lparr>heif_available := False\<rparr>)
   \<and> run_batch (demo_lib\<lparr>heif_available := False\<rparr>) demo_fs (Path ''/'' [''in''])
        (Path ''/'' [''out'']) 95 False True
      = (Inl (RuntimeError
           ''HEIC support not available. Install pillow-heif (and libheif on Linux).''),
         demo_fs, [])
   \<and> heif_available (demo_lib\<lparr>register_heif_opener := Inl (LibError ''no libheif'')\<rparr>)
   \<and> run_batch (demo_lib\<lparr>register_heif_opener := Inl (LibError ''no libheif'')\<rparr>) demo_fs
        (Path ''/'' [''in'']) (Path ''/'' [''out'']) 95 False True
      = (Inl (RuntimeError ''HEIF initialization failed: no libheif''), demo_fs, [])"
  using run_batch_fails_fast [of "demo_lib\<lparr>heif_available := False\<rparr>" demo_fs
      "Path ''/'' [''in'']" "Path ''/'' [''out'']" 95 False True]
    run_batch_fails_fast [where L = "demo_lib\<lparr>register_heif_opener := Inl (LibError ''no libheif'')\<rparr>"
      and e = "LibError ''no libheif''" and f = demo_fs and input_dir = "Path ''/'' [''in'']"
      and output_dir = "Path ''/'' [''out'']" and quality = 95 and overwrite = False
      and fix_orientation = True]
  by (simp add: demo_lib_def)

lemma convert_one_classified:
  "\<exists>msg r f'. convert_one L f src dest q ov fo = (Inr msg, f')
      \<and> convert_try L f src dest q ov fo = (r, f')
      \<and> (startswith msg ''ERROR'' \<longleftrightarrow> isl r)"
  using convert_one_cases [of L f src dest q ov fo]
  by (auto simp: startswith_def)

lemma batch_loop_counts:
  "batch_loop L ind outd q ov fo files (f, d0, e0, p0) = (None, (f', dn, er, pr)) \<Longrightarrow>
     dn = d0 + length files
     \<and> er = e0 + failed_attempts L ind outd q ov fo files f
     \<and> (\<exists>new. pr = p0 @ new \<and> length new = length files
           \<and> er = e0 + length (filter (\<lambda>m. startswith m ''ERROR'') new))"
proof (induction files arbitrary: f d0 e0 p0)
  case Nil
  then show ?case by simp
next
  case (Cons src files)
  from Cons.prems obtain dest where d: "make_output_path src ind outd = Inr dest"
    by (cases "make_output_path src ind outd") simp_all
  obtain msg r f1 where c: "convert_one L f src dest q ov fo = (Inr msg, f1)"
    and t: "convert_try L f src dest q ov fo = (r, f1)"
    and e: "startswith msg ''ERROR'' \<longleftrightarrow> isl r"
    using convert_one_classified [of L f src dest q ov fo] by blast
  from Cons.prems d c have pl: "print_line L msg = None"
    by (cases "print_line L msg") simp_all
  let ?e1 = "if startswith msg ''ERROR'' then e0 + 1 else e0"
  from Cons.prems d c pl
  have "batch_loop L ind outd q ov fo files (f1, d0 + 1, ?e1, p0 @ [msg])
          = (None, (f', dn, er, pr))"
    by simp
  from Cons.IH [OF this] obtain new where
    dn: "dn = d0 + 1 + length files"
    and er: "er = ?e1 + failed_attempts L ind outd q ov fo files f1"
    and pr: "pr = (p0 @ [msg]) @ new" and ln: "length new = length files"
    and er2: "er = ?e1 + length (filter (\<lambda>m. startswith m ''ERROR'') new)"
    by blast
  have 1: "dn = d0 + length (src # files)" using dn by simp
  have 2: "er = e0 + failed_attempts L ind outd q ov fo (src # files) f"
    using er e by (simp add: d t)
  have 3: "pr = p0 @ (msg # new) \<and> length (msg # new) = length (src # files)
      \<and> er = e0 + length (filter (\<lambda>m. startswith m ''ERROR'') (msg # new))"
    using pr ln er2 by simp
  from 1 2 3 show ?case by blast
qed

text \<open>
  C2: when a batch run returns, \<open>done\<close> equals \<open>total\<close>, the number of discovered
  files; one line was printed per file; \<open>errors\<close> is the number of printed lines that
  start with \<open>ERROR\<close>, which is the number of attempts whose \<open>try\<close> body raised, and
  is at most \<open>total\<close>. With HEIF support present and nothing discovered the run returns
  \<open>(0, 0, 0)\<close>.
\<close>

theorem run_batch_counts:
  "(run_batch L f input_dir output_dir quality overwrite fix_orientation
       = (Inr (total_n, done_n, errors), f', printed) \<longrightarrow>
      done_n = total_n \<and> total_n = length (find_heic_files f input_dir)
      \<and> length printed = total_n
      \<and> errors = length (filter (\<lambda>m. startswith m ''ERROR'') printed)
      \<and> errors = failed_attempts L input_dir output_dir quality overwrite fix_orientation
                   (find_heic_files f input_dir) f
      \<and> errors \<le> total_n)
   \<and> (heif_available L \<and> register_heif_opener L = Inr () \<and> find_heic_files f input_dir = []
        \<longrightarrow> run_batch L f input_dir output_dir quality overwrite fix_orientation
              = (Inr (0, 0, 0), f, []))"
proof (rule conjI; rule impI)
  assume r: "run_batch L f input_dir output_dir quality overwrite fix_orientation
       = (Inr (total_n, done_n, errors), f', printed)"
  let ?files = "find_heic_files f input_dir"
  from r have loop: "batch_loop L input_dir output_dir quality overwrite fix_orientation ?files
           (f, 0, 0, []) = (None, (f', done_n, errors, printed))"
    and tot: "total_n = length ?files"
    by (auto simp: run_batch_def Let_def split: if_splits sum.splits prod.splits option.splits)
  from batch_loop_counts [OF loop] obtain new where
    "done_n = length ?files"
    "errors = failed_attempts L input_dir output_dir quality overwrite fix_orientation ?files f"
    "printed = new" "length new = length ?files"
    "errors = length (filter (\<lambda>m. startswith m ''ERROR'') new)"
    by auto
  moreover have "length (filter (\<lambda>m. startswith m ''ERROR'') new) \<le> length new"
    by (rule length_filter_le)
  ultimately show "done_n = total_n \<and> total_n = length (find_heic_files f input_dir)
      \<and> length printed = total_n
      \<and> errors = length (filter (\<lambda>m. startswith m ''ERROR'') printed)
      \<and> errors = failed_attempts L input_dir output_dir quality overwrite fix_orientation
                   (find_heic_files f input_dir) f
      \<and> errors \<le> total_n"
    using tot by simp
next
  assume "heif_available L \<and> register_heif_opener L = Inr () \<and> find_heic_files f input_dir = []"
  then show "run_batch L f input_dir output_dir quality overwrite fix_orientation
              = (Inr (0, 0, 0), f, [])"
    by (simp add: run_batch_def)
qed

lemma demo_run:
  "run_batch demo_lib demo_fs (Path ''/'' [''in'']) (Path ''/'' [''out'']) 95 False True
     = (Inr (2, 2, 1),
        demo_fs @ [(Path ''/'' [''out'', ''a''], DirE),
                   (Path ''/'' [''out'', ''a'', ''b.jpg''], FileE [1])],
        [''OK: b.HEIC'', ''ERROR: bad.heif (cannot identify image file)''])"
  by code_simp

theorem run_batch_counts_witness:
  "run_batch demo_lib demo_fs (Path ''/'' [''in'']) (Path ''/'' [''out'']) 95 False True
     = (Inr (2, 2, 1),
        demo_fs @ [(Path ''/'' [''out'', ''a''], DirE),
                   (Path ''/'' [''out'', ''a'', ''b.jpg''], FileE [1])],
        [''OK: b.HEIC'', ''ERROR: bad.heif (cannot identify image file)''])
   \<and> 2 = length (find_heic_files demo_fs (Path ''/'' [''in'']))
   \<and> 1 = failed_attempts demo_lib (Path ''/'' [''in'']) (Path ''/'' [''out'']) 95 False True
         (find_heic_files demo_fs (Path ''/'' [''in''])) demo_fs
   \<and> heif_available demo_lib \<and> register_heif_opener demo_lib = Inr ()
   \<and> find_heic_files demo_fs (Path ''/'' [''out'']) = []
   \<and> run_batch demo_lib demo_fs (Path ''/'' [''out'']) (Path ''/'' [''out2'']) 95 False True
      = (Inr (0, 0, 0), demo_fs, [])"
proof -
  have e: "heif_available demo_lib \<and> register_heif_opener demo_lib = Inr ()
     \<and> find_heic_files demo_fs (Path ''/'' [''out'']) = []"
    by code_simp
  note t1 = run_batch_counts [of demo_lib demo_fs "Path ''/'' [''in'']" "Path ''/'' [''out'']" 95
      False True 2 2 1]
  from t1 [THEN conjunct1, THEN mp, OF demo_run]
  have c: "2 = length (find_heic_files demo_fs (Path ''/'' [''in'']))
     \<and> 1 = failed_attempts demo_lib (Path ''/'' [''in'']) (Path ''/'' [''out'']) 95 False True
         (find_heic_files demo_fs (Path ''/'' [''in''])) demo_fs"
    by blast
  note t2 = run_batch_counts [of demo_lib demo_fs "Path ''/'' [''out'']" "Path ''/'' [''out2'']" 95
      False True]
  from t2 [THEN conjunct2, THEN mp, OF e]
  have z: "run_batch demo_lib demo_fs (Path ''/'' [''out'']) (Path ''/'' [''out2'']) 95 False True
      = (Inr (0, 0, 0), demo_fs, [])" .
  from demo_run c e z show ?thesis by blast
qed

lemma discovered_named:
  "p \<in> set (find_heic_files f r) \<Longrightarrow> is_below p r \<and> name p \<noteq> []"
  by (auto simp: find_heic_files_def rglob_def HEIC_EXTS_def suffix_def suffix_of_def)

text \<open>
  C5, as the claim states it, fails: the path mapping is called in the loop of the batch
  runner, before \<open>convert_one\<close> and outside its \<open>try\<close>. On a source that is not
  under the input root the mapping raises and the loop stops with that exception: no
  \<open>ERROR\<close> line is printed and no error is counted.
\<close>

theorem path_mapping_abort_counterexample:
  "isl (make_output_path (Path ''/'' [''elsewhere'', ''x.heic'']) (Path ''/'' [''in''])
          (Path ''/'' [''out'']))
   \<and> batch_loop demo_lib (Path ''/'' [''in'']) (Path ''/'' [''out'']) 95 False True
        [Path ''/'' [''elsewhere'', ''x.heic'']] (demo_fs, 0, 0, [])
      = (Some (projl (make_output_path (Path ''/'' [''elsewhere'', ''x.heic''])
                        (Path ''/'' [''in'']) (Path ''/'' [''out'']))),
         (demo_fs, 0, 0, []))"
  by (simp add: path_simps)

text \<open>
  C5 (amended): a failure of the path mapping is raised in the loop of the batch runner,
  outside the converter's \<open>try\<close>, and ends the loop with that exception, leaving the
  counters and the printed lines as they were. For every file that discovery finds
  under the input directory the mapping succeeds.
\<close>

theorem path_mapping_outside_try:
  "(make_output_path src input_dir output_dir = Inl e \<longrightarrow>
      batch_loop L input_dir output_dir quality overwrite fix_orientation (src # files)
          (f, done_n, errors, printed)
        = (Some e, (f, done_n, errors, printed)))
   \<and> (\<forall>p \<in> set (find_heic_files f input_dir).
         \<exists>d. make_output_path p input_dir output_dir = Inr d)"
proof (rule conjI)
  show "make_output_path src input_dir output_dir = Inl e \<longrightarrow>
      batch_loop L input_dir output_dir quality overwrite fix_orientation (src # files)
          (f, done_n, errors, printed)
        = (Some e, (f, done_n, errors, printed))"
    by simp
next
  show "\<forall>p \<in> set (find_heic_files f input_dir).
         \<exists>d. make_output_path p input_dir output_dir = Inr d"
    using discovered_named make_output_path_ok by blast
qed

theorem path_mapping_outside_try_witness:
  "isl (make_output_path (Path ''/'' [''elsewhere'', ''x.heic'']) (Path ''/'' [''in''])
          (Path ''/'' [''out'']))
   \<and> batch_loop demo_lib (Path ''/'' [''in'']) (Path ''/'' [''out'']) 95 False True
        [Path ''/'' [''elsewhere'', ''x.heic''], Path ''/'' [''in'', ''a'', ''b.HEIC'']]
        (demo_fs, 0, 0, [])
      = (Some (projl (make_output_path (Path ''/'' [''elsewhere'', ''x.heic''])
                        (Path ''/'' [''in'']) (Path ''/'' [''out'']))),
         (demo_fs, 0, 0, []))
   \<and> Path ''/'' [''in'', ''a'', ''b.HEIC''] \<in> set (find_heic_files demo_fs (Path ''/'' [''in'']))
   \<and> make_output_path (Path ''/'' [''in'', ''a'', ''b.HEIC'']) (Path ''/'' [''in''])
        (Path ''/'' [''out'']) = Inr (Path ''/'' [''out'', ''a'', ''b.jpg''])"
proof -
  let ?x = "Path ''/'' [''elsewhere'', ''x.heic'']"
  let ?m = "make_output_path ?x (Path ''/'' [''in'']) (Path ''/'' [''out''])"
  have i: "isl ?m" by (simp add: path_simps)
  then have m: "?m = Inl (projl ?m)" by simp
  have d: "Path ''/'' [''in'', ''a'', ''b.HEIC''] \<in> set (find_heic_files demo_fs (Path ''/'' [''in'']))
     \<and> make_output_path (Path ''/'' [''in'', ''a'', ''b.HEIC'']) (Path ''/'' [''in''])
        (Path ''/'' [''out'']) = Inr (Path ''/'' [''out'', ''a'', ''b.jpg''])"
    by code_simp
  note t = path_mapping_outside_try [of ?x "Path ''/'' [''in'']" "Path ''/'' [''out'']"
      "projl ?m" demo_lib 95 False True "[Path ''/'' [''in'', ''a'', ''b.HEIC'']]" demo_fs 0 0 "[]"]
  from t [THEN conjunct1, THEN mp, OF m] i d show ?thesis by blast
qed

section \<open>The quality argument\<close>

lemma convert_try_save_cong:
  assumes "\<forall>img p ex g. sv img p ex q g = image_save L img p ex q g"
  shows "convert_try (L\<lparr>image_save := sv\<rparr>) f src dest q ov fo = convert_try L f src dest q ov fo"
  using assms
  by (auto simp: convert_try_def orient_step_def fix_orientation_exif_bytes_def
      split: prod.splits sum.splits option.splits)

lemma convert_one_save_cong:
  assumes "\<forall>img p ex g. sv img p ex q g = image_save L img p ex q g"
  shows "convert_one (L\<lparr>image_save := sv\<rparr>) f src dest q ov fo = convert_one L f src dest q ov fo"
  using assms by (simp add: convert_one_def convert_try_save_cong)

lemma batch_loop_save_cong:
  assumes "\<forall>img p ex g. sv img p ex q g = image_save L img p ex q g"
  shows "batch_loop (L\<lparr>image_save := sv\<rparr>) ind outd q ov fo files st
           = batch_loop L ind outd q ov fo files st"
proof (induction files arbitrary: st)
  case Nil
  then show ?case by simp
next
  case (Cons src files)
  obtain f d0 e0 p0 where st: "st = (f, d0, e0, p0)" by (metis prod_cases4)
  show ?case
    using assms
    by (simp add: st convert_one_save_cong Cons.IH
        split: sum.splits prod.splits option.splits)
qed

lemma run_batch_save_cong:
  assumes "\<forall>img p ex g. sv img p ex q g = image_save L img p ex q g"
  shows "run_batch (L\<lparr>image_save := sv\<rparr>) f ind outd q ov fo = run_batch L f ind outd q ov fo"
  using assms by (simp add: run_batch_def batch_loop_save_cong split: sum.splits)

text \<open>
  C9: the quality argument is clamped to the interval from 1 to 100 before the batch
  uses it: 150 becomes 100 and 0 becomes 1, every value above 100 becomes 100 and every
  value below 1 becomes 1, and a value already in the interval is passed unchanged. Once
  the input directory is checked and the output directory made, the entry point runs
  the batch with the clamped value, and the run depends on the library's save only at
  that quality: no other quality reaches it.
\<close>

theorem quality_clamped:
  "clamp_quality 150 = 100 \<and> clamp_quality 0 = 1
   \<and> (q < 1 \<longrightarrow> clamp_quality q = 1)
   \<and> (100 < q \<longrightarrow> clamp_quality q = 100)
   \<and> (1 \<le> q \<and> q \<le> 100 \<longrightarrow> clamp_quality q = q)
   \<and> 1 \<le> clamp_quality q \<and> clamp_quality q \<le> 100
   \<and> (path_exists f src \<and> is_dir f src \<and> mkdir_parents f dst = (None, f1) \<longrightarrow>
        main_run L f src dst q ov nof = run_batch L f1 src dst (clamp_quality q) ov (\<not> nof))
   \<and> ((\<forall>img p ex g. sv img p ex (clamp_quality q) g = image_save L img p ex (clamp_quality q) g)
        \<longrightarrow> main_run (L\<lparr>image_save := sv\<rparr>) f src dst q ov nof = main_run L f src dst q ov nof)"
proof -
  have c: "clamp_quality 150 = 100 \<and> clamp_quality 0 = 1
   \<and> (q < 1 \<longrightarrow> clamp_quality q = 1)
   \<and> (100 < q \<longrightarrow> clamp_quality q = 100)
   \<and> (1 \<le> q \<and> q \<le> 100 \<longrightarrow> clamp_quality q = q)
   \<and> 1 \<le> clamp_quality q \<and> clamp_quality q \<le> 100"
    by (simp add: clamp_quality_def)
  have r: "path_exists f src \<and> is_dir f src \<and> mkdir_parents f dst = (None, f1) \<longrightarrow>
        main_run L f src dst q ov nof = run_batch L f1 src dst (clamp_quality q) ov (\<not> nof)"
    by (simp add: main_run_def)
  have s: "(\<forall>img p ex g. sv img p ex (clamp_quality q) g = image_save L img p ex (clamp_quality q) g)
        \<longrightarrow> main_run (L\<lparr>image_save := sv\<rparr>) f src dst q ov nof = main_run L f src dst q ov nof"
  proof
    assume a: "\<forall>img p ex g. sv img p ex (clamp_quality q) g
                 = image_save L img p ex (clamp_quality q) g"
    show "main_run (L\<lparr>image_save := sv\<rparr>) f src dst q ov nof = main_run L f src dst q ov nof"
      using a
      by (simp add: main_run_def run_batch_save_cong split: prod.splits option.splits)
  qed
  from c r s show ?thesis by blast
qed

theorem quality_clamped_witness:
  "(0::int) < 1 \<and> clamp_quality 0 = 1 \<and> (100::int) < 150 \<and> clamp_quality 150 = 100
   \<and> (1::int) \<le> 95 \<and> (95::int) \<le> 100 \<and> clamp_quality 95 = 95
   \<and> path_exists demo_fs (Path ''/'' [''in'']) \<and> is_dir demo_fs (Path ''/'' [''in''])
   \<and> mkdir_parents demo_fs (Path ''/'' [''out'']) = (None, demo_fs)
   \<and> main_run
         (demo_lib\<lparr>image_save := (\<lambda>img p ex q g.
              if tail p = [] then (Some (OSError ''Is a directory''), g)
              else (None, write_file g p [word_of_int q]))\<rparr>)
         demo_fs (Path ''/'' [''in'']) (Path ''/'' [''out'']) 150 False False
       = run_batch
           (demo_lib\<lparr>image_save := (\<lambda>img p ex q g.
              if tail p = [] then (Some (OSError ''Is a directory''), g)
              else (None, write_file g p [word_of_int q]))\<rparr>)
           demo_fs (Path ''/'' [''in'']) (Path ''/'' [''out'']) 100 False True
   \<and> run_batch
         (demo_lib\<lparr>image_save := (\<lambda>img p ex q g.
              if tail p = [] then (Some (OSError ''Is a directory''), g)
              else (None, write_file g p [word_of_int q]))\<rparr>)
         demo_fs (Path ''/'' [''in'']) (Path ''/'' [''out'']) 100 False True
       = (Inr (2, 2, 1),
          demo_fs @ [(Path ''/'' [''out'', ''a''], DirE),
                     (Path ''/'' [''out'', ''a'', ''b.jpg''], FileE [100])],
          [''OK: b.HEIC'', ''ERROR: bad.heif (cannot identify image file)''])
   \<and> (\<forall>img p ex g.
         (if clamp_quality 150 = 100 then image_save demo_lib img p ex (clamp_quality 150) g
          else (Some (LibError ''quality out of range''), g))
         = image_save demo_lib img p ex (clamp_quality 150) g)
   \<and> main_run
         (demo_lib\<lparr>image_save := (\<lambda>img p ex q g.
              if q = 100 then image_save demo_lib img p ex q g
              else (Some (LibError ''quality out of range''), g))\<rparr>)
         demo_fs (Path ''/'' [''in'']) (Path ''/'' [''out'']) 150 False False
       = main_run demo_lib demo_fs (Path ''/'' [''in'']) (Path ''/'' [''out'']) 150 False False"
proof -
  let ?Lq = "demo_lib\<lparr>image_save := (\<lambda>img p ex q g.
              if tail p = [] then (Some (OSError ''Is a directory''), g)
              else (None, write_file g p [word_of_int q]))\<rparr>"
  let ?sv = "\<lambda>img p ex q g.
              if q = 100 then image_save demo_lib img p ex q g
              else (Some (LibError ''quality out of range''), g)"
  let ?in = "Path ''/'' [''in'']"
  let ?out = "Path ''/'' [''out'']"
  have pre: "path_exists demo_fs ?in \<and> is_dir demo_fs ?in
      \<and> mkdir_parents demo_fs ?out = (None, demo_fs)"
    by code_simp
  have run: "run_batch ?Lq demo_fs ?in ?out 100 False True
       = (Inr (2, 2, 1),
          demo_fs @ [(Path ''/'' [''out'', ''a''], DirE),
                     (Path ''/'' [''out'', ''a'', ''b.jpg''], FileE [100])],
          [''OK: b.HEIC'', ''ERROR: bad.heif (cannot identify image file)''])"
    by code_simp
  note t150 = quality_clamped [of 150 demo_fs ?in ?out demo_fs ?Lq False False ?sv]
  note t0 = quality_clamped [of 0]
  note t95 = quality_clamped [of 95]
  from t150 have c150: "clamp_quality 150 = 100" by blast
  from t0 have c0: "clamp_quality 0 = 1" by blast
  from t95 have c95: "clamp_quality 95 = 95" by simp
  from t150 pre have "main_run ?Lq demo_fs ?in ?out 150 False False
      = run_batch ?Lq demo_fs ?in ?out (clamp_quality 150) False (\<not> False)"
    by blast
  then have m: "main_run ?Lq demo_fs ?in ?out 150 False False
      = run_batch ?Lq demo_fs ?in ?out 100 False True"
    by (simp add: c150)
  have agree: "\<forall>img p ex g.
         (if clamp_quality 150 = 100 then image_save demo_lib img p ex (clamp_quality 150) g
          else (Some (LibError ''quality out of range''), g))
         = image_save demo_lib img p ex (clamp_quality 150) g"
    by (simp add: c150)
  note t = quality_clamped [of 150 demo_fs ?in ?out demo_fs demo_lib False False ?sv]
  from t agree have s: "main_run (demo_lib\<lparr>image_save := ?sv\<rparr>) demo_fs ?in ?out 150 False False
       = main_run demo_lib demo_fs ?in ?out 150 False False"
    by blast
  have triv: "(0::int) < 1 \<and> (100::int) < 150 \<and> (1::int) \<le> 95 \<and> (95::int) \<le> 100" by simp
  from triv c0 c150 c95 pre m run agree s show ?thesis by blast
qed

end
